theory Spec2Isabelle
  imports Main "HOL-Library.Sublist" "HOL-Library.Char_ord" "HOL-Library.List_Lexorder"
    "HOL-Library.AList"
begin

section \<open>JavaScript values and strings\<close>

text \<open>
  Values that cross a JSON boundary (request bodies, stored members, settings, response
  bodies). An object is the association list of its own properties in the order the
  language lists them; numbers are the integers the program handles (status codes,
  millisecond timestamps).
\<close>

datatype json =
    JNull
  | JBool bool
  | JNum int
  | JStr string
  | JArr "json list"
  | JObj "(string \<times> json) list"

text \<open>The condition of \<^verbatim>\<open>if (v)\<close> and the left operand of \<^verbatim>\<open>v || w\<close>.\<close>

definition truthy :: "json \<Rightarrow> bool" where
  "truthy v =
     (case v of
        JNull \<Rightarrow> False
      | JBool b \<Rightarrow> b
      | JNum n \<Rightarrow> n \<noteq> 0
      | JStr s \<Rightarrow> s \<noteq> []
      | JArr _ \<Rightarrow> True
      | JObj _ \<Rightarrow> True)"

text \<open>\<^verbatim>\<open>s.includes(sub)\<close>, \<^verbatim>\<open>s.startsWith(p)\<close>, \<^verbatim>\<open>s.toLowerCase()\<close> and
  \<^verbatim>\<open>s.trim()\<close> on strings of 8-bit characters (the code points below 256): the letters
  with a lower case are \<open>A\<close> to \<open>Z\<close> and the accented capitals \<open>0xC0\<close> to \<open>0xDE\<close>
  (without the sign \<open>0xD7\<close>), each 32 below its lower case.\<close>

definition str_includes :: "string \<Rightarrow> string \<Rightarrow> bool" where
  "str_includes s sub = sublist sub s"

definition str_startsWith :: "string \<Rightarrow> string \<Rightarrow> bool" where
  "str_startsWith s p = prefix p s"

definition is_upper_case :: "char \<Rightarrow> bool" where
  "is_upper_case c =
     ((CHR ''A'' \<le> c \<and> c \<le> CHR ''Z'') \<or>
      (CHR 0xC0 \<le> c \<and> c \<le> CHR 0xDE \<and> c \<noteq> CHR 0xD7))"

text \<open>In the code of an upper-case letter the bit of weight 32 is clear; setting it adds
  32 (\<open>toLowerCase_char_value\<close> below).\<close>

definition toLowerCase_char :: "char \<Rightarrow> char" where
  "toLowerCase_char c =
     (if is_upper_case c
      then (case c of Char b0 b1 b2 b3 b4 b5 b6 b7 \<Rightarrow> Char b0 b1 b2 b3 b4 True b6 b7)
      else c)"

definition toLowerCase :: "string \<Rightarrow> string" where
  "toLowerCase s = map toLowerCase_char s"

text \<open>Header names are compared without regard to the case of the letters \<open>A\<close> to \<open>Z\<close>
  only (byte-lowercase).\<close>

definition byte_lowercase_char :: "char \<Rightarrow> char" where
  "byte_lowercase_char c =
     (case map_of (zip ''ABCDEFGHIJKLMNOPQRSTUVWXYZ'' ''abcdefghijklmnopqrstuvwxyz'') c of
        Some d \<Rightarrow> d
      | None \<Rightarrow> c)"

definition byte_lowercase :: "string \<Rightarrow> string" where
  "byte_lowercase s = map byte_lowercase_char s"

definition is_white_space :: "char \<Rightarrow> bool" where
  "is_white_space c = (of_char c \<in> {9, 10, 11, 12, 13, 32, 160 :: nat})"

definition trim :: "string \<Rightarrow> string" where
  "trim s = rev (dropWhile is_white_space (rev (dropWhile is_white_space s)))"

text \<open>
  An object lists its own keys with the array indices first, in ascending numeric order,
  and then the other keys in the order of their creation. An array index is a canonical
  decimal numeral below \<open>2^32 - 1\<close>.
\<close>

fun digits_value :: "nat \<Rightarrow> string \<Rightarrow> nat option" where
  "digits_value n [] = Some n"
| "digits_value n (c # cs) =
     (if CHR ''0'' \<le> c \<and> c \<le> CHR ''9''
      then digits_value (10 * n + (of_char c - 48)) cs
      else None)"

definition array_index :: "string \<Rightarrow> nat option" where
  "array_index k =
     (case k of
        [] \<Rightarrow> None
      | c # cs \<Rightarrow>
          (if c = CHR ''0'' \<and> cs \<noteq> [] then None
           else case digits_value 0 k of
                  Some n \<Rightarrow> (if n < 4294967295 then Some n else None)
                | None \<Rightarrow> None))"

fun insert_indexed :: "nat \<Rightarrow> string \<times> 'v \<Rightarrow> (string \<times> 'v) list \<Rightarrow> (string \<times> 'v) list" where
  "insert_indexed i e [] = [e]"
| "insert_indexed i e (x # xs) =
     (case array_index (fst x) of
        Some j \<Rightarrow> (if j < i then x # insert_indexed i e xs else e # x # xs)
      | None \<Rightarrow> e # x # xs)"

text \<open>Creating or overwriting an own data property: an existing key keeps its place.\<close>

definition define_property :: "(string \<times> 'v) list \<Rightarrow> string \<Rightarrow> 'v \<Rightarrow> (string \<times> 'v) list" where
  "define_property obj k v =
     (if k \<in> fst ` set obj then AList.update k v obj
      else case array_index k of
             Some i \<Rightarrow> insert_indexed i (k, v) obj
           | None \<Rightarrow> obj @ [(k, v)])"

text \<open>\<^verbatim>\<open>obj[key] = value\<close> on an object literal: the key \<^verbatim>\<open>__proto__\<close> reaches the
  inherited setter and creates no own property.\<close>

definition assign :: "(string \<times> 'v) list \<Rightarrow> string \<Rightarrow> 'v \<Rightarrow> (string \<times> 'v) list" where
  "assign obj k v = (if k = ''__proto__'' then obj else define_property obj k v)"

text \<open>\<^verbatim>\<open>{...base, ...extra}\<close> and \<^verbatim>\<open>Object.fromEntries(entries)\<close> create data
  properties, \<^verbatim>\<open>__proto__\<close> included.\<close>

definition spread :: "(string \<times> 'v) list \<Rightarrow> (string \<times> 'v) list \<Rightarrow> (string \<times> 'v) list" where
  "spread base extra = foldl (\<lambda>obj (k, v). define_property obj k v) base extra"

definition fromEntries :: "(string \<times> 'v) list \<Rightarrow> (string \<times> 'v) list" where
  "fromEntries entries = spread [] entries"

text \<open>\<^verbatim>\<open>parts.join(sep)\<close>.\<close>

fun join :: "string \<Rightarrow> string list \<Rightarrow> string" where
  "join sep [] = []"
| "join sep [x] = x"
| "join sep (x # y # ys) = x @ sep @ join sep (y # ys)"

text \<open>
  The parts of the JavaScript runtime and of the Redis client configuration
  (\<^verbatim>\<open>lib/redis.ts\<close>) that the program calls but does not define:
  \<^verbatim>\<open>JSON.parse\<close> (\<open>None\<close> when it throws), \<^verbatim>\<open>JSON.stringify\<close>, and whether the client
  deserializes the strings it reads.
\<close>

record runtime =
  JSON_parse :: "string \<Rightarrow> json option"
  JSON_stringify :: "json \<Rightarrow> string"
  automaticDeserialization :: bool

section \<open>Events and settings\<close>

text \<open>\<^verbatim>\<open>WebhookEvent\<close> of \<^verbatim>\<open>app/actions/webhook.ts\<close>; the fields carry the prefix
  \<open>ev_\<close>.\<close>

record WebhookEvent =
  ev_id :: string
  ev_uuid :: string
  ev_method :: string
  ev_url :: string
  ev_headers :: "(string \<times> json) list"
  ev_body :: json
  ev_query :: "(string \<times> json) list"
  ev_timestamp :: int

text \<open>The object literal \<^verbatim>\<open>webhookEvent\<close> of the route, in its key order.\<close>

definition event_json :: "WebhookEvent \<Rightarrow> json" where
  "event_json e =
     JObj [(''id'', JStr (ev_id e)),
           (''uuid'', JStr (ev_uuid e)),
           (''method'', JStr (ev_method e)),
           (''url'', JStr (ev_url e)),
           (''headers'', JObj (ev_headers e)),
           (''body'', ev_body e),
           (''query'', JObj (ev_query e)),
           (''timestamp'', JNum (ev_timestamp e))]"

record WebhookSettings =
  responseStatus :: int
  responseBody :: string
  responseHeaders :: "(string \<times> string) list"

definition settings_json :: "WebhookSettings \<Rightarrow> json" where
  "settings_json s =
     JObj [(''responseStatus'', JNum (responseStatus s)),
           (''responseBody'', JStr (responseBody s)),
           (''responseHeaders'', JObj (map (\<lambda>(k, v). (k, JStr v)) (responseHeaders s)))]"

fun string_entries :: "(string \<times> json) list \<Rightarrow> (string \<times> string) list option" where
  "string_entries [] = Some []"
| "string_entries ((k, JStr v) # kvs) = map_option (\<lambda>r. (k, v) # r) (string_entries kvs)"
| "string_entries _ = None"

text \<open>The cast \<^verbatim>\<open>as WebhookSettings\<close> reads a value at the declared type; \<open>None\<close> for
  a value that does not have it.\<close>

definition as_settings :: "json \<Rightarrow> WebhookSettings option" where
  "as_settings v =
     (case v of
        JObj fs \<Rightarrow>
          (case (map_of fs ''responseStatus'', map_of fs ''responseBody'',
                 map_of fs ''responseHeaders'') of
             (Some (JNum n), Some (JStr b), Some (JObj hs)) \<Rightarrow>
               map_option
                 (\<lambda>h. \<lparr>responseStatus = n, responseBody = b, responseHeaders = h\<rparr>)
                 (string_entries hs)
           | _ \<Rightarrow> None)
      | _ \<Rightarrow> None)"

section \<open>The Redis store\<close>

text \<open>
  The program keeps two families of keys: \<^verbatim>\<open>webhook:<uuid>:events\<close> holds a sorted set,
  \<^verbatim>\<open>webhook:<uuid>:settings\<close> holds a string. No key belongs to both families
  (\<open>events_key_neq_settings_key\<close> below), so the store is one table per family. A
  sorted set is the list of its (score, member) pairs in rank order: ascending score, ties
  by the members' lexicographic order; a key that does not exist is the empty set.
\<close>

record store =
  zsets :: "string \<Rightarrow> (int \<times> string) list"
  strings :: "string \<Rightarrow> string option"

definition zless :: "int \<times> string \<Rightarrow> int \<times> string \<Rightarrow> bool" where
  "zless a b = (fst a < fst b \<or> (fst a = fst b \<and> snd a < snd b))"

fun zinsert :: "int \<times> string \<Rightarrow> (int \<times> string) list \<Rightarrow> (int \<times> string) list" where
  "zinsert e [] = [e]"
| "zinsert e (x # xs) = (if zless e x then e # x # xs else x # zinsert e xs)"

definition zadd_list :: "(int \<times> string) list \<Rightarrow> int \<Rightarrow> string \<Rightarrow> (int \<times> string) list" where
  "zadd_list z score member = zinsert (score, member) (filter (\<lambda>e. snd e \<noteq> member) z)"

text \<open>Redis rank arguments: a negative rank counts from the end; the range is clipped to
  the set; \<open>None\<close> is the empty range.\<close>

definition rank_bounds :: "nat \<Rightarrow> int \<Rightarrow> int \<Rightarrow> (nat \<times> nat) option" where
  "rank_bounds n start stop =
     (let len = int n;
          s = (if start < 0 then max 0 (len + start) else start);
          e = (if stop < 0 then len + stop else min stop (len - 1))
      in if s > e \<or> s \<ge> len then None else Some (nat s, nat e))"

definition zrange_list ::
  "(int \<times> string) list \<Rightarrow> int \<Rightarrow> int \<Rightarrow> bool \<Rightarrow> (int \<times> string) list" where
  "zrange_list z start stop rv =
     (let xs = (if rv then rev z else z)
      in case rank_bounds (length xs) start stop of
           None \<Rightarrow> []
         | Some (s, e) \<Rightarrow> take (Suc e - s) (drop s xs))"

definition zremrangebyrank_list ::
  "(int \<times> string) list \<Rightarrow> int \<Rightarrow> int \<Rightarrow> (int \<times> string) list" where
  "zremrangebyrank_list z start stop =
     (case rank_bounds (length z) start stop of
        None \<Rightarrow> z
      | Some (s, e) \<Rightarrow> take s z @ drop (Suc e) z)"

definition zrem_list :: "(int \<times> string) list \<Rightarrow> string \<Rightarrow> (int \<times> string) list" where
  "zrem_list z member = filter (\<lambda>e. snd e \<noteq> member) z"

definition redis_zadd :: "store \<Rightarrow> string \<Rightarrow> int \<Rightarrow> string \<Rightarrow> store" where
  "redis_zadd st k score member = st\<lparr>zsets := (zsets st)(k := zadd_list (zsets st k) score member)\<rparr>"

definition redis_zcard :: "store \<Rightarrow> string \<Rightarrow> nat" where
  "redis_zcard st k = length (zsets st k)"

definition redis_zremrangebyrank :: "store \<Rightarrow> string \<Rightarrow> int \<Rightarrow> int \<Rightarrow> store" where
  "redis_zremrangebyrank st k start stop =
     st\<lparr>zsets := (zsets st)(k := zremrangebyrank_list (zsets st k) start stop)\<rparr>"

definition redis_zrange :: "store \<Rightarrow> string \<Rightarrow> int \<Rightarrow> int \<Rightarrow> bool \<Rightarrow> string list" where
  "redis_zrange st k start stop rv = map snd (zrange_list (zsets st k) start stop rv)"

definition redis_zrem :: "store \<Rightarrow> string \<Rightarrow> string \<Rightarrow> store" where
  "redis_zrem st k member = st\<lparr>zsets := (zsets st)(k := zrem_list (zsets st k) member)\<rparr>"

definition redis_del :: "store \<Rightarrow> string \<Rightarrow> store" where
  "redis_del st k = st\<lparr>zsets := (zsets st)(k := [])\<rparr>"

definition redis_set :: "store \<Rightarrow> string \<Rightarrow> string \<Rightarrow> store" where
  "redis_set st k v = st\<lparr>strings := (strings st)(k \<mapsto> v)\<rparr>"

definition redis_get :: "store \<Rightarrow> string \<Rightarrow> string option" where
  "redis_get st k = strings st k"

text \<open>What the client hands to the program for a stored string: with automatic
  deserialization the parsed value, or the string itself when it does not parse.\<close>

definition client_value :: "runtime \<Rightarrow> string \<Rightarrow> json" where
  "client_value rt raw =
     (if automaticDeserialization rt
      then (case JSON_parse rt raw of Some v \<Rightarrow> v | None \<Rightarrow> JStr raw)
      else JStr raw)"

text \<open>The calls that leave the process; each may raise (network, service).\<close>

datatype io =
    Redis_zadd | Redis_zcard | Redis_zremrangebyrank | Redis_zrange | Redis_zrem
  | Redis_del | Redis_get | Redis_set | Realtime_emit

definition events_key :: "string \<Rightarrow> string" where
  "events_key uuid = ''webhook:'' @ uuid @ '':events''"

definition settings_key :: "string \<Rightarrow> string" where
  "settings_key uuid = ''webhook:'' @ uuid @ '':settings''"

definition channel_name :: "string \<Rightarrow> string" where
  "channel_name uuid = ''webhook:'' @ uuid"

section \<open>Settings actions (\<^verbatim>\<open>app/actions/settings.ts\<close>)\<close>

definition saveWebhookSettings ::
  "runtime \<Rightarrow> (io \<Rightarrow> bool) \<Rightarrow> string \<Rightarrow> WebhookSettings \<Rightarrow> store \<Rightarrow> store \<times> bool" where
  "saveWebhookSettings rt raises uuid settings st =
     (let redisKey = settings_key uuid
      in if raises Redis_set then (st, False)
         else (redis_set st redisKey (JSON_stringify rt (settings_json settings)), True))"

text \<open>The result is \<open>JNull\<close> for \<^verbatim>\<open>null\<close>; every raise inside ends in the \<^verbatim>\<open>catch\<close>
  that returns \<^verbatim>\<open>null\<close>.\<close>

definition getWebhookSettings :: "runtime \<Rightarrow> (io \<Rightarrow> bool) \<Rightarrow> string \<Rightarrow> store \<Rightarrow> json" where
  "getWebhookSettings rt raises uuid st =
     (let redisKey = settings_key uuid
      in if raises Redis_get then JNull
         else case redis_get st redisKey of
                None \<Rightarrow> JNull
              | Some raw \<Rightarrow>
                  (let settings = client_value rt raw
                   in if truthy settings
                      then (case settings of
                              JStr s \<Rightarrow> (case JSON_parse rt s of None \<Rightarrow> JNull | Some v \<Rightarrow> v)
                            | _ \<Rightarrow> settings)
                      else JNull))"

section \<open>The capture route (\<^verbatim>\<open>app/api/webhook/[uuid]/route.ts\<close>)\<close>

text \<open>
  The request as the handler reads it: method, URL, the entries of \<^verbatim>\<open>request.headers\<close>
  (names lower-cased by the platform) and of \<^verbatim>\<open>new URL(request.url).searchParams\<close>,
  and what each body reader resolves to (\<open>None\<close> when it rejects).
\<close>

record request =
  req_method :: string
  req_url :: string
  req_headers :: "(string \<times> string) list"
  req_searchParams :: "(string \<times> string) list"
  req_json :: "json option"
  req_formData :: "(string \<times> string) list option"
  req_text :: "string option"

definition headers_get :: "(string \<times> string) list \<Rightarrow> string \<Rightarrow> string option" where
  "headers_get hs name = map_of hs (byte_lowercase name)"

text \<open>\<^verbatim>\<open>forEach((value, key) => { obj[key] = value })\<close>.\<close>

definition collect :: "(string \<times> string) list \<Rightarrow> (string \<times> json) list" where
  "collect entries = foldl (\<lambda>obj (k, v). assign obj k (JStr v)) [] entries"

text \<open>Lines 29--49: the body by declared content type; the inner \<^verbatim>\<open>catch\<close> turns
  every rejected read into \<^verbatim>\<open>null\<close>.\<close>

definition parseBody :: "request \<Rightarrow> json" where
  "parseBody request =
     (let contentType =
            (case headers_get (req_headers request) ''content-type'' of
               Some v \<Rightarrow> v
             | None \<Rightarrow> [])
      in if str_includes contentType ''application/json''
         then (case req_json request of Some v \<Rightarrow> v | None \<Rightarrow> JNull)
         else if str_includes contentType ''application/x-www-form-urlencoded''
         then (case req_formData request of
                 Some formData \<Rightarrow> JObj (fromEntries (map (\<lambda>(k, v). (k, JStr v)) formData))
               | None \<Rightarrow> JNull)
         else if str_includes contentType ''text/''
         then (case req_text request of Some t \<Rightarrow> JStr t | None \<Rightarrow> JNull)
         else (case req_text request of
                 Some t \<Rightarrow> (if t \<noteq> [] then JStr t else JNull)
               | None \<Rightarrow> JNull))"

text \<open>What one invocation meets in its environment: the clock, the generated id, which
  outgoing calls raise, and whether a publish that raises had delivered the event before it
  raised (the publishing library is outside the program).\<close>

record call_env =
  env_now :: int
  env_uuidv4 :: string
  env_raises :: "io \<Rightarrow> bool"
  env_emit_delivered :: bool

definition webhookEvent :: "call_env \<Rightarrow> string \<Rightarrow> request \<Rightarrow> WebhookEvent" where
  "webhookEvent env uuid request =
     \<lparr>ev_id = env_uuidv4 env,
      ev_uuid = uuid,
      ev_method = req_method request,
      ev_url = req_url request,
      ev_headers = collect (req_headers request),
      ev_body = parseBody request,
      ev_query = collect (req_searchParams request),
      ev_timestamp = env_now env\<rparr>"

text \<open>
  \<^verbatim>\<open>NextResponse.json(body, {status, headers})\<close> builds the response or throws. The
  platform reads the status as an unsigned 16-bit integer and rejects a status outside 200
  to 599 and, as this response has a body, a null-body status. It turns the header object
  into a header list, key by key: a name must be a token; a value is trimmed of surrounding
  tabs, spaces and line breaks and must hold no NUL, CR or LF. Names compare without regard
  to ASCII case (the list keeps them in lower case), and a name that occurs several times
  reads as its values joined by a comma and a space. When the list has no
  \<^verbatim>\<open>content-type\<close>, \<^verbatim>\<open>application/json\<close> is added.
\<close>

record response =
  res_status :: int
  res_headers :: "(string \<times> string) list"
  res_body :: json

definition to_unsigned_short :: "int \<Rightarrow> int" where
  "to_unsigned_short n = n mod 65536"

definition null_body_status :: "int \<Rightarrow> bool" where
  "null_body_status n = (n = 101 \<or> n = 103 \<or> n = 204 \<or> n = 205 \<or> n = 304)"

definition is_tchar :: "char \<Rightarrow> bool" where
  "is_tchar c =
     (c \<in> set ''!#$%&*+-.^_`|~0123456789ABCDEFGHIJKLMNOPQRSTUVWXYZabcdefghijklmnopqrstuvwxyz''
      \<or> c = CHR 0x27)"

definition valid_header_name :: "string \<Rightarrow> bool" where
  "valid_header_name name = (name \<noteq> [] \<and> list_all is_tchar name)"

definition is_http_whitespace :: "char \<Rightarrow> bool" where
  "is_http_whitespace c = (c = CHR 0x09 \<or> c = CHR 0x0A \<or> c = CHR 0x0D \<or> c = CHR 0x20)"

definition normalize_header_value :: "string \<Rightarrow> string" where
  "normalize_header_value v =
     rev (dropWhile is_http_whitespace (rev (dropWhile is_http_whitespace v)))"

definition valid_header_value :: "string \<Rightarrow> bool" where
  "valid_header_value v = list_all (\<lambda>c. c \<noteq> CHR 0x00 \<and> c \<noteq> CHR 0x0A \<and> c \<noteq> CHR 0x0D) v"

fun header_list :: "(string \<times> string) list \<Rightarrow> (string \<times> string) list option" where
  "header_list [] = Some []"
| "header_list (h # rest) =
     (if valid_header_name (fst h) \<and> valid_header_value (normalize_header_value (snd h))
      then map_option (\<lambda>hs. (byte_lowercase (fst h), normalize_header_value (snd h)) # hs)
             (header_list rest)
      else None)"

text \<open>\<^verbatim>\<open>response.headers.get(name)\<close>.\<close>

definition header_get :: "(string \<times> string) list \<Rightarrow> string \<Rightarrow> string option" where
  "header_get hs name =
     (case map snd (filter (\<lambda>h. fst h = byte_lowercase name) hs) of
        [] \<Rightarrow> None
      | v # vs \<Rightarrow> Some (join '', '' (v # vs)))"

definition NextResponse_json :: "json \<Rightarrow> int \<Rightarrow> (string \<times> string) list \<Rightarrow> response option" where
  "NextResponse_json body status headers =
     (let status' = to_unsigned_short status
      in if status' < 200 \<or> 599 < status' \<or> null_body_status status' then None
         else case header_list headers of
                None \<Rightarrow> None
              | Some hs \<Rightarrow>
                  Some \<lparr>res_status = status',
                        res_headers =
                          (if header_get hs ''content-type'' = None
                           then hs @ [(''content-type'', ''application/json'')]
                           else hs),
                        res_body = body\<rparr>)"

text \<open>A settings value that does not have the declared type \<^verbatim>\<open>WebhookSettings\<close> is
  outside what the handler's types allow; the model marks it instead of guessing.\<close>

datatype outcome = Response response | OutsideDeclaredTypes

text \<open>The two fixed responses, \<^verbatim>\<open>NextResponse.json({...}, {status: 200})\<close> and
  \<^verbatim>\<open>NextResponse.json({...}, {status: 500})\<close>; neither call throws
  (\<open>NextResponse_json_fixed\<close> below).\<close>

definition default_response :: response where
  "default_response =
     \<lparr>res_status = 200, res_headers = [(''content-type'', ''application/json'')],
      res_body = JObj [(''success'', JBool True), (''message'', JStr ''Webhook received'')]\<rparr>"

definition error_response :: response where
  "error_response =
     \<lparr>res_status = 500, res_headers = [(''content-type'', ''application/json'')],
      res_body = JObj [(''success'', JBool False), (''error'', JStr ''Internal server error'')]\<rparr>"

text \<open>Lines 88--103; \<open>None\<close> when \<^verbatim>\<open>NextResponse.json\<close> throws.\<close>

definition custom_response :: "runtime \<Rightarrow> WebhookSettings \<Rightarrow> response option" where
  "custom_response rt settings =
     (let responseHeaders' = spread [(''Content-Type'', ''application/json'')] (responseHeaders settings);
          responseBody' =
            (case JSON_parse rt (responseBody settings) of
               Some v \<Rightarrow> v
             | None \<Rightarrow> JStr (responseBody settings))
      in NextResponse_json responseBody' (responseStatus settings) responseHeaders')"

text \<open>Lines 84--117: the response from the settings read. A throw of
  \<^verbatim>\<open>NextResponse.json\<close> is inside the outer \<^verbatim>\<open>try\<close>, so the \<^verbatim>\<open>catch\<close> answers the
  500.\<close>

definition respond :: "runtime \<Rightarrow> json \<Rightarrow> outcome" where
  "respond rt settings =
     (if truthy settings
      then (case as_settings settings of
              Some s \<Rightarrow>
                (case custom_response rt s of
                   Some r \<Rightarrow> Response r
                 | None \<Rightarrow> Response error_response)
            | None \<Rightarrow> OutsideDeclaredTypes)
      else Response default_response)"

record handled =
  h_store :: store
  h_emitted :: "(string \<times> WebhookEvent) list"
  h_reply :: outcome

text \<open>The outer \<^verbatim>\<open>catch\<close> after a raising store call: whatever was written stays,
  the publish was not reached, the reply is the 500.\<close>

definition caught :: "store \<Rightarrow> handled" where
  "caught st = \<lparr>h_store = st, h_emitted = [], h_reply = Response error_response\<rparr>"

definition handleWebhook :: "runtime \<Rightarrow> call_env \<Rightarrow> string \<Rightarrow> request \<Rightarrow> store \<Rightarrow> handled" where
  "handleWebhook rt env uuid request st =
     (let event = webhookEvent env uuid request;
          redisKey = events_key uuid
      in if env_raises env Redis_zadd then caught st
         else let st1 = redis_zadd st redisKey (env_now env) (JSON_stringify rt (event_json event))
              in if env_raises env Redis_zcard then caught st1
                 else let count = redis_zcard st1 redisKey
                      in if count > 50 \<and> env_raises env Redis_zremrangebyrank then caught st1
                         else let st2 = (if count > 50
                                         then redis_zremrangebyrank st1 redisKey 0 (int count - 51)
                                         else st1)
                              in if env_raises env Realtime_emit
                                 then (caught st2)
                                        \<lparr>h_emitted :=
                                           (if env_emit_delivered env
                                            then [(channel_name uuid, event)]
                                            else [])\<rparr>
                                 else \<lparr>h_store = st2,
                                       h_emitted = [(channel_name uuid, event)],
                                       h_reply =
                                         respond rt
                                           (getWebhookSettings rt (env_raises env) uuid st2)\<rparr>)"

section \<open>Event actions (\<^verbatim>\<open>app/actions/webhook.ts\<close>)\<close>

text \<open>\<^verbatim>\<open>typeof event === "string" ? JSON.parse(event) : event\<close>; \<open>None\<close> when the parse
  throws.\<close>

definition parsed_event :: "runtime \<Rightarrow> json \<Rightarrow> json option" where
  "parsed_event rt event = (case event of JStr s \<Rightarrow> JSON_parse rt s | _ \<Rightarrow> Some event)"

definition getWebhookEvents :: "runtime \<Rightarrow> (io \<Rightarrow> bool) \<Rightarrow> string \<Rightarrow> store \<Rightarrow> json list" where
  "getWebhookEvents rt raises uuid st =
     (let redisKey = events_key uuid
      in if raises Redis_zrange then []
         else let members = redis_zrange st redisKey 0 (- 1) True
              in case those (map (\<lambda>m. parsed_event rt (client_value rt m)) members) of
                   None \<Rightarrow> []
                 | Some events \<Rightarrow> events)"

text \<open>\<^verbatim>\<open>parsedEvent.id === eventId\<close>: reading a property of \<^verbatim>\<open>null\<close> throws
  (\<open>None\<close>); a value without the property compares unequal.\<close>

definition id_is :: "json \<Rightarrow> string \<Rightarrow> bool option" where
  "id_is parsedEvent eventId =
     (case parsedEvent of
        JNull \<Rightarrow> None
      | JObj fs \<Rightarrow> Some (map_of fs ''id'' = Some (JStr eventId))
      | _ \<Rightarrow> Some False)"

text \<open>The \<^verbatim>\<open>for\<close> loop of \<^verbatim>\<open>deleteWebhookEvent\<close> up to its \<^verbatim>\<open>zrem\<close>: \<open>None\<close> when
  an iteration throws, \<open>Some None\<close> when the loop ends without a match, \<open>Some (Some m)\<close>
  with the member to remove at the first match.\<close>

fun find_member :: "runtime \<Rightarrow> string \<Rightarrow> json list \<Rightarrow> string option option" where
  "find_member rt eventId [] = Some None"
| "find_member rt eventId (event # events) =
     (case parsed_event rt event of
        None \<Rightarrow> None
      | Some parsedEvent \<Rightarrow>
          (case id_is parsedEvent eventId of
             None \<Rightarrow> None
           | Some True \<Rightarrow>
               Some (Some (case event of JStr s \<Rightarrow> s | _ \<Rightarrow> JSON_stringify rt event))
           | Some False \<Rightarrow> find_member rt eventId events))"

definition deleteWebhookEvent ::
  "runtime \<Rightarrow> (io \<Rightarrow> bool) \<Rightarrow> string \<Rightarrow> string \<Rightarrow> store \<Rightarrow> store \<times> bool" where
  "deleteWebhookEvent rt raises uuid eventId st =
     (let redisKey = events_key uuid
      in if raises Redis_zrange then (st, False)
         else let members = redis_zrange st redisKey 0 (- 1) False
              in case find_member rt eventId (map (client_value rt) members) of
                   None \<Rightarrow> (st, False)
                 | Some None \<Rightarrow> (st, False)
                 | Some (Some member) \<Rightarrow>
                     (if raises Redis_zrem then (st, False)
                      else (redis_zrem st redisKey member, True)))"

definition deleteAllWebhookEvents ::
  "(io \<Rightarrow> bool) \<Rightarrow> string \<Rightarrow> store \<Rightarrow> store \<times> bool" where
  "deleteAllWebhookEvents raises uuid st =
     (let redisKey = events_key uuid
      in if raises Redis_del then (st, False) else (redis_del st redisKey, True))"

section \<open>The viewer (\<^verbatim>\<open>app/components/inbox.tsx\<close>)\<close>

text \<open>The component state: \<^verbatim>\<open>events\<close> and \<^verbatim>\<open>searchQuery\<close>.\<close>

record inbox =
  events :: "WebhookEvent list"
  searchQuery :: string

text \<open>\<^verbatim>\<open>onData\<close> of the subscription, and \<^verbatim>\<open>loadEvents\<close> once
  \<^verbatim>\<open>getWebhookEvents\<close> has resolved to \<open>initialEvents\<close>.\<close>

definition onData :: "string \<Rightarrow> WebhookEvent \<Rightarrow> inbox \<Rightarrow> inbox" where
  "onData uuid data' st =
     (if ev_uuid data' = uuid then st\<lparr>events := data' # events st\<rparr> else st)"

definition loadEvents :: "WebhookEvent list \<Rightarrow> inbox \<Rightarrow> inbox" where
  "loadEvents initialEvents st = st\<lparr>events := initialEvents\<rparr>"

definition matches :: "runtime \<Rightarrow> string \<Rightarrow> WebhookEvent \<Rightarrow> bool" where
  "matches rt query event =
     (if str_includes (toLowerCase (ev_method event)) query then True
      else if str_includes (toLowerCase (ev_url event)) query then True
      else if str_includes (toLowerCase (JSON_stringify rt (JObj (ev_headers event)))) query then True
      else if str_includes (toLowerCase (JSON_stringify rt (JObj (ev_query event)))) query then True
      else if truthy (ev_body event) \<and>
              str_includes
                (case ev_body event of
                   JStr s \<Rightarrow> toLowerCase s
                 | b \<Rightarrow> toLowerCase (JSON_stringify rt b)) query
      then True
      else if str_includes (toLowerCase (ev_id event)) query then True
      else False)"

definition filteredEvents :: "runtime \<Rightarrow> inbox \<Rightarrow> WebhookEvent list" where
  "filteredEvents rt st =
     (if trim (searchQuery st) = [] then events st
      else let query = toLowerCase (searchQuery st)
           in filter (matches rt query) (events st))"

section \<open>Sequential captures and stored logs\<close>

text \<open>Sequential captures to one endpoint: each call of the handler runs to its end on
  the store the call before it left. \<open>entry\<close> is the (score, member) pair a capture adds.\<close>

definition captures :: "runtime \<Rightarrow> string \<Rightarrow> (call_env \<times> request) list \<Rightarrow> store \<Rightarrow> store" where
  "captures rt uuid calls st =
     foldl (\<lambda>s c. h_store (handleWebhook rt (fst c) uuid (snd c) s)) st calls"

definition entry :: "runtime \<Rightarrow> string \<Rightarrow> call_env \<times> request \<Rightarrow> int \<times> string" where
  "entry rt uuid c =
     (env_now (fst c), JSON_stringify rt (event_json (webhookEvent (fst c) uuid (snd c))))"

text \<open>The member that stands for an event, and the sorted set that holds the events
  \<open>ses\<close> (each with its score) in this order.\<close>

definition member_of :: "runtime \<Rightarrow> WebhookEvent \<Rightarrow> string" where
  "member_of rt e = JSON_stringify rt (event_json e)"

definition log_of :: "runtime \<Rightarrow> (int \<times> WebhookEvent) list \<Rightarrow> (int \<times> string) list" where
  "log_of rt ses = map (\<lambda>se. (fst se, member_of rt (snd se))) ses"

section \<open>The viewer's bootstrap scenario\<close>

text \<open>One \<^verbatim>\<open>loadEvents\<close> followed by the \<^verbatim>\<open>onData\<close> calls of the live pushes, in
  arrival order.\<close>

definition bootstrap_then_pushes ::
  "string \<Rightarrow> WebhookEvent list \<Rightarrow> WebhookEvent list \<Rightarrow> inbox \<Rightarrow> inbox" where
  "bootstrap_then_pushes uuid initialEvents pushes st =
     foldl (\<lambda>s d. onData uuid d s) (loadEvents initialEvents st) pushes"

section \<open>The specification's wording, for comparison\<close>

text \<open>
  The body policy as the specification words it (its third case reads ``starts with
  \<^verbatim>\<open>text/\<close>''), and the search predicate as the specification words it (method, url,
  serialized headers, serialized query, serialized or raw body). These two definitions
  follow the specification, not the source.
\<close>

definition spec_parseBody :: "request \<Rightarrow> json" where
  "spec_parseBody request =
     (let contentType =
            (case headers_get (req_headers request) ''content-type'' of
               Some v \<Rightarrow> v
             | None \<Rightarrow> [])
      in if str_includes contentType ''application/json''
         then (case req_json request of Some v \<Rightarrow> v | None \<Rightarrow> JNull)
         else if str_includes contentType ''application/x-www-form-urlencoded''
         then (case req_formData request of
                 Some formData \<Rightarrow> JObj (fromEntries (map (\<lambda>(k, v). (k, JStr v)) formData))
               | None \<Rightarrow> JNull)
         else if str_startsWith contentType ''text/''
         then (case req_text request of Some t \<Rightarrow> JStr t | None \<Rightarrow> JNull)
         else (case req_text request of
                 Some t \<Rightarrow> (if t = [] then JNull else JStr t)
               | None \<Rightarrow> JNull))"

definition spec_matches :: "runtime \<Rightarrow> string \<Rightarrow> WebhookEvent \<Rightarrow> bool" where
  "spec_matches rt text event =
     (let t = toLowerCase text
      in str_includes (toLowerCase (ev_method event)) t \<or>
         str_includes (toLowerCase (ev_url event)) t \<or>
         str_includes (toLowerCase (JSON_stringify rt (JObj (ev_headers event)))) t \<or>
         str_includes (toLowerCase (JSON_stringify rt (JObj (ev_query event)))) t \<or>
         str_includes
           (toLowerCase (case ev_body event of JStr s \<Rightarrow> s | b \<Rightarrow> JSON_stringify rt b)) t)"

definition spec_search :: "runtime \<Rightarrow> string \<Rightarrow> WebhookEvent list \<Rightarrow> WebhookEvent list" where
  "spec_search rt text es = filter (spec_matches rt text) es"

section \<open>A concrete runtime and concrete inputs\<close>

text \<open>
  To run the definitions, a runtime is needed: \<open>show_json\<close> prints a value as compact
  JSON text, and \<open>table_runtime vs\<close> parses exactly the texts of the values in \<open>vs\<close>.
\<close>

fun dec :: "nat \<Rightarrow> string" where
  "dec n = (if n < 10 then [''0123456789'' ! n] else dec (n div 10) @ [''0123456789'' ! (n mod 10)])"

definition show_int :: "int \<Rightarrow> string" where
  "show_int i = (if i < 0 then CHR ''-'' # dec (nat (- i)) else dec (nat i))"

definition quote :: "string \<Rightarrow> string" where
  "quote s = [CHR 0x22] @ concat (map (\<lambda>c. if c = CHR 0x22 \<or> c = CHR 0x5C then [CHR 0x5C, c] else [c]) s) @ [CHR 0x22]"

fun show_json :: "json \<Rightarrow> string" where
  "show_json JNull = ''null''"
| "show_json (JBool b) = (if b then ''true'' else ''false'')"
| "show_json (JNum n) = show_int n"
| "show_json (JStr s) = quote s"
| "show_json (JArr vs) = ''['' @ join '','' (map show_json vs) @ '']''"
| "show_json (JObj kvs) = ''{'' @ join '','' (map (\<lambda>kv. quote (fst kv) @ '':'' @ show_json (snd kv)) kvs) @ ''}''"

definition table_runtime :: "json list \<Rightarrow> bool \<Rightarrow> runtime" where
  "table_runtime vs auto = \<lparr>JSON_parse = (\<lambda>s. find (\<lambda>v. show_json v = s) vs), JSON_stringify = show_json, automaticDeserialization = auto\<rparr>"

definition store0 :: store where
  "store0 = \<lparr>zsets = (\<lambda>_. []), strings = (\<lambda>_. None)\<rparr>"

definition request0 :: request where
  "request0 =
     \<lparr>req_method = ''POST'', req_url = ''https://ehook.app/api/webhook/abc?x=1'',
      req_headers = [(''content-type'', ''application/json'')],
      req_searchParams = [(''x'', ''1'')],
      req_json = Some (JObj [(''x'', JNum 1)]), req_formData = None, req_text = None\<rparr>"

definition env0 :: call_env where
  "env0 =
     \<lparr>env_now = 1700000000000, env_uuidv4 = ''e1'', env_raises = (\<lambda>_. False),
      env_emit_delivered = False\<rparr>"

definition env_emit_raises :: call_env where
  "env_emit_raises = env0\<lparr>env_raises := (\<lambda>c. c = Realtime_emit)\<rparr>"

definition env_get_raises :: call_env where
  "env_get_raises = env0\<lparr>env_raises := (\<lambda>c. c = Redis_get)\<rparr>"

definition store_corrupted :: store where
  "store_corrupted = redis_set store0 (settings_key ''abc'') ''{oops''"

definition settings0 :: WebhookSettings where
  "settings0 =
     \<lparr>responseStatus = 201, responseBody = show_json (JObj [(''ok'', JBool True)]),
      responseHeaders = [(''X-Test'', ''1'')]\<rparr>"

definition runtime1 :: "bool \<Rightarrow> runtime" where
  "runtime1 auto = table_runtime [settings_json settings0, JObj [(''ok'', JBool True)]] auto"


definition content_type_related :: string where
  "content_type_related = ''multipart/related; type='' @ [CHR 0x22] @ ''text/xml'' @ [CHR 0x22]"

definition request_related :: request where
  "request_related =
     \<lparr>req_method = ''POST'', req_url = ''https://ehook.app/api/webhook/abc'',
      req_headers = [(''content-type'', content_type_related)],
      req_searchParams = [],
      req_json = None, req_formData = None, req_text = Some []\<rparr>"

definition request_bad_json :: request where
  "request_bad_json = request0\<lparr>req_json := None\<rparr>"

definition event0 :: WebhookEvent where
  "event0 = webhookEvent env0 ''abc'' request0"

definition request_ping :: request where
  "request_ping =
     \<lparr>req_method = ''GET'', req_url = ''https://ehook.app/api/webhook/abc'',
      req_headers = [], req_searchParams = [],
      req_json = None, req_formData = None, req_text = Some []\<rparr>"

definition call_of :: "char \<Rightarrow> call_env \<times> request" where
  "call_of c =
     (\<lparr>env_now = 1700000000000 + int (of_char c), env_uuidv4 = [c], env_raises = (\<lambda>_. False),
       env_emit_delivered = False\<rparr>,
      request_ping)"

definition ids51 :: string where
  "ids51 = ''0123456789ABCDEFGHIJKLMNOPQRSTUVWXYZabcdefghijklmno''"

definition calls51 :: "(call_env \<times> request) list" where
  "calls51 = map call_of ids51"

definition env1 :: call_env where
  "env1 =
     \<lparr>env_now = 1700000000500, env_uuidv4 = ''e2'', env_raises = (\<lambda>_. False),
      env_emit_delivered = False\<rparr>"

definition event1 :: WebhookEvent where
  "event1 = webhookEvent env1 ''abc'' request_ping"

definition runtime2 :: "bool \<Rightarrow> runtime" where
  "runtime2 auto = table_runtime [event_json event0, event_json event1] auto"

definition store2 :: store where
  "store2 =
     h_store (handleWebhook (runtime2 True) env1 ''abc'' request_ping
       (h_store (handleWebhook (runtime2 True) env0 ''abc'' request0 store0)))"

definition store_old :: store where
  "store_old = store0\<lparr>zsets := (\<lambda>k. if k = events_key ''abc'' then [(1600000000000, ''old'')] else [])\<rparr>"






section \<open>Basic facts\<close>

lemma events_key_neq_settings_key: "events_key u \<noteq> settings_key u'"
proof
  assume "events_key u = settings_key u'"
  then have "rev (events_key u) = rev (settings_key u')" by simp
  then show False by (simp add: events_key_def settings_key_def)
qed

lemma toLowerCase_char_value:
  "(of_char (toLowerCase_char c) :: nat) =
     (if is_upper_case c then of_char c + 32 else of_char c)"
proof (cases "is_upper_case c")
  case False
  then show ?thesis by (simp add: toLowerCase_char_def)
next
  case True
  obtain b0 b1 b2 b3 b4 b5 b6 b7 where c: "c = Char b0 b1 b2 b3 b4 b5 b6 b7"
    by (cases c)
  have "\<not> b5"
    using True unfolding c is_upper_case_def
    by (cases b0; cases b1; cases b2; cases b3; cases b4; cases b5; cases b6; cases b7) simp_all
  then show ?thesis
    using True by (simp add: toLowerCase_char_def c)
qed

lemmas eval_defs =
  handleWebhook_def getWebhookSettings_def respond_def caught_def Let_def
  redis_get_def redis_set_def redis_zadd_def redis_zcard_def redis_zremrangebyrank_def
  settings_key_def events_key_def truthy_def client_value_def table_runtime_def

lemma strings_after_writes:
  "strings (redis_zadd st k sc m) = strings st"
  "strings (redis_zremrangebyrank st k a b) = strings st"
  "strings (redis_zrem st k m) = strings st"
  by (simp_all add: redis_zadd_def redis_zremrangebyrank_def redis_zrem_def)

lemma getWebhookSettings_cong:
  "strings st' = strings st \<Longrightarrow>
   getWebhookSettings rt raises uuid st' = getWebhookSettings rt raises uuid st"
  by (simp add: getWebhookSettings_def redis_get_def)

lemma webhookEvent_raises_update:
  "webhookEvent (env\<lparr>env_raises := f\<rparr>) uuid request = webhookEvent env uuid request"
  by (simp add: webhookEvent_def)

text \<open>When no call before the settings read raises, the handler publishes the event and
  answers from the settings it reads.\<close>

lemma handleWebhook_reaches_respond:
  assumes "\<not> env_raises env Redis_zadd" "\<not> env_raises env Redis_zcard"
    "\<not> env_raises env Redis_zremrangebyrank" "\<not> env_raises env Realtime_emit"
  shows "h_reply (handleWebhook rt env uuid request st) =
           respond rt (getWebhookSettings rt (env_raises env) uuid st)"
    and "h_emitted (handleWebhook rt env uuid request st) =
           [(channel_name uuid, webhookEvent env uuid request)]"
  using assms
  by (simp_all add: handleWebhook_def Let_def strings_after_writes cong: getWebhookSettings_cong)

lemma client_value_unparsable:
  "JSON_parse rt raw = None \<Longrightarrow> client_value rt raw = JStr raw"
  by (simp add: client_value_def)

lemma string_entries_map: "string_entries (map (\<lambda>(k, v). (k, JStr v)) hs) = Some hs"
  by (induction hs) auto

lemma as_settings_settings_json: "as_settings (settings_json s) = Some s"
  by (simp add: as_settings_def settings_json_def string_entries_map)








lemmas object_eval =
  collect_def assign_def spread_def fromEntries_def define_property_def array_index_def

lemmas header_eval =
  NextResponse_json_def to_unsigned_short_def null_body_status_def valid_header_name_def
  is_tchar_def normalize_header_value_def is_http_whitespace_def valid_header_value_def
  header_get_def byte_lowercase_def byte_lowercase_char_def

lemma NextResponse_json_fixed:
  "NextResponse_json (JObj [(''success'', JBool True), (''message'', JStr ''Webhook received'')])
     200 [] = Some default_response"
  "NextResponse_json (JObj [(''success'', JBool False), (''error'', JStr ''Internal server error'')])
     500 [] = Some error_response"
  by (simp_all add: header_eval default_response_def error_response_def)



lemma getWebhookSettings_stored:
  assumes "\<not> raises Redis_get"
    and "strings st (settings_key uuid) = Some (JSON_stringify rt (settings_json s))"
    and "JSON_parse rt (JSON_stringify rt (settings_json s)) = Some (settings_json s)"
    and "JSON_parse rt [] = None"
  shows "getWebhookSettings rt raises uuid st = settings_json s"
proof (cases "automaticDeserialization rt")
  case True
  then have "client_value rt (JSON_stringify rt (settings_json s)) = settings_json s"
    using assms(3) by (simp add: client_value_def)
  then show ?thesis
    using assms(1,2)
    by (simp add: getWebhookSettings_def redis_get_def Let_def truthy_def settings_json_def)
next
  case False
  then have cv: "client_value rt (JSON_stringify rt (settings_json s)) = JStr (JSON_stringify rt (settings_json s))"
    by (simp add: client_value_def)
  have ne: "JSON_stringify rt (settings_json s) \<noteq> []"
    using assms(3,4) by auto
  show ?thesis
    using assms(1,2,3) ne
    by (simp add: getWebhookSettings_def redis_get_def Let_def truthy_def cv)
qed

lemma runtime1_facts:
  "JSON_parse (runtime1 a) (JSON_stringify (runtime1 a) (settings_json settings0)) = Some (settings_json settings0)"
  "JSON_parse (runtime1 a) [] = None"
  "JSON_parse (runtime1 a) (responseBody settings0) = Some (JObj [(''ok'', JBool True)])"
  by (simp_all add: runtime1_def table_runtime_def settings_json_def settings0_def quote_def show_int_def)



lemmas string_eval =
  str_includes_def str_startsWith_def sublist_code toLowerCase_def toLowerCase_char_def
  is_upper_case_def byte_lowercase_def byte_lowercase_char_def
  headers_get_def

lemma event0_eq:
  "event0 = \<lparr>ev_id = ''e1'', ev_uuid = ''abc'', ev_method = ''POST'',
     ev_url = ''https://ehook.app/api/webhook/abc?x=1'',
     ev_headers = [(''content-type'', JStr ''application/json'')],
     ev_body = JObj [(''x'', JNum 1)],
     ev_query = [(''x'', JStr ''1'')],
     ev_timestamp = 1700000000000\<rparr>"
  by (simp add: event0_def webhookEvent_def env0_def request0_def object_eval
      parseBody_def string_eval)

lemma events_foldl_onData:
  "events (foldl (\<lambda>s d. onData uuid d s) st pushes) =
     rev (filter (\<lambda>d. ev_uuid d = uuid) pushes) @ events st"
  by (induction pushes arbitrary: st) (simp_all add: onData_def)

section \<open>Facts about the sorted set and the stored log\<close>

lemma zinsert_last: "\<forall>x \<in> set z. fst x < fst e \<Longrightarrow> zinsert e z = z @ [e]"
  by (induction z) (auto simp: zless_def)

lemma zadd_list_fresh:
  assumes "\<forall>x \<in> set z. fst x < score" and "member \<notin> snd ` set z"
  shows "zadd_list z score member = z @ [(score, member)]"
proof -
  have "filter (\<lambda>e. snd e \<noteq> member) z = z"
    using assms(2) by (auto simp: filter_id_conv)
  then show ?thesis
    using assms(1) by (simp add: zadd_list_def zinsert_last)
qed

lemma zremrangebyrank_list_trim:
  "50 < length z \<Longrightarrow> zremrangebyrank_list z 0 (int (length z) - 51) = drop (length z - 50) z"
proof -
  assume len: "50 < length z"
  then have "Suc (length z - 51) = length z - 50" by arith
  moreover have "rank_bounds (length z) 0 (int (length z) - 51) = Some (0, length z - 51)"
    using len by (auto simp: rank_bounds_def Let_def)
  ultimately show ?thesis
    by (simp add: zremrangebyrank_list_def)
qed

lemma handleWebhook_store:
  assumes "\<not> env_raises env Redis_zadd" "\<not> env_raises env Redis_zcard"
    "\<not> env_raises env Redis_zremrangebyrank"
    and "\<forall>x \<in> set (zsets st (events_key uuid)). fst x < env_now env"
    and "snd (entry rt uuid (env, request)) \<notin> snd ` set (zsets st (events_key uuid))"
  shows "zsets (h_store (handleWebhook rt env uuid request st)) (events_key uuid) =
           drop (Suc (length (zsets st (events_key uuid))) - 50)
             (zsets st (events_key uuid) @ [entry rt uuid (env, request)])"
proof -
  let ?z = "zsets st (events_key uuid)"
  let ?e = "entry rt uuid (env, request)"
  let ?st1 = "redis_zadd st (events_key uuid) (env_now env)
                (JSON_stringify rt (event_json (webhookEvent env uuid request)))"
  have z1: "zsets ?st1 (events_key uuid) = ?z @ [?e]"
    using assms(4,5) by (simp add: redis_zadd_def entry_def zadd_list_fresh)
  have count: "redis_zcard ?st1 (events_key uuid) = Suc (length ?z)"
    by (simp add: redis_zcard_def z1)
  have st2: "zsets (if 50 < Suc (length ?z)
                    then redis_zremrangebyrank ?st1 (events_key uuid) 0 (int (Suc (length ?z)) - 51)
                    else ?st1) (events_key uuid) = drop (Suc (length ?z) - 50) (?z @ [?e])"
    using zremrangebyrank_list_trim [of "?z @ [?e]"]
    by (simp add: redis_zremrangebyrank_def z1)
  have "h_store (handleWebhook rt env uuid request st) =
          (if 50 < Suc (length ?z)
           then redis_zremrangebyrank ?st1 (events_key uuid) 0 (int (Suc (length ?z)) - 51)
           else ?st1)"
    using assms(1-3) by (simp add: handleWebhook_def Let_def caught_def count)
  then show ?thesis
    using st2 by simp
qed

lemma drop_drop_append:
  "drop (length (drop (length xs - k) xs @ ys) - k) (drop (length xs - k) xs @ ys) =
   drop (length (xs @ ys) - k) (xs @ ys)"
  by (cases "length xs \<le> k") (auto simp: add.commute)

lemma captures_log:
  assumes "\<forall>c \<in> set calls. \<not> env_raises (fst c) Redis_zadd \<and> \<not> env_raises (fst c) Redis_zcard \<and>
             \<not> env_raises (fst c) Redis_zremrangebyrank"
    and "sorted_wrt (<) (map (\<lambda>c. env_now (fst c)) calls)"
    and "\<forall>x \<in> set (zsets st (events_key uuid)). \<forall>c \<in> set calls. fst x < env_now (fst c)"
    and "distinct (map snd (zsets st (events_key uuid)) @ map (\<lambda>c. snd (entry rt uuid c)) calls)"
    and "calls = [] \<longrightarrow> length (zsets st (events_key uuid)) \<le> 50"
  shows "zsets (captures rt uuid calls st) (events_key uuid) =
           drop (length (zsets st (events_key uuid) @ map (entry rt uuid) calls) - 50)
             (zsets st (events_key uuid) @ map (entry rt uuid) calls)"
  using assms
proof (induction calls arbitrary: st)
  case Nil
  then show ?case by (simp add: captures_def)
next
  case (Cons c calls)
  let ?z = "zsets st (events_key uuid)"
  let ?st1 = "h_store (handleWebhook rt (fst c) uuid (snd c) st)"
  have step: "zsets ?st1 (events_key uuid) = drop (Suc (length ?z) - 50) (?z @ [entry rt uuid c])"
    using handleWebhook_store [of "fst c" st uuid rt "snd c"] Cons.prems by auto
  have sub: "set (zsets ?st1 (events_key uuid)) \<subseteq> set ?z \<union> {entry rt uuid c}"
    unfolding step using set_drop_subset [of _ "?z @ [entry rt uuid c]"] by auto
  have fst_c: "fst (entry rt uuid c) = env_now (fst c)"
    by (simp add: entry_def)
  have p1: "\<forall>c \<in> set calls. \<not> env_raises (fst c) Redis_zadd \<and> \<not> env_raises (fst c) Redis_zcard \<and>
             \<not> env_raises (fst c) Redis_zremrangebyrank"
    using Cons.prems(1) by simp
  have p2: "sorted_wrt (<) (map (\<lambda>c. env_now (fst c)) calls)"
    using Cons.prems(2) by simp
  have p3: "\<forall>x \<in> set (zsets ?st1 (events_key uuid)). \<forall>c \<in> set calls. fst x < env_now (fst c)"
    using sub Cons.prems(2,3) fst_c by fastforce
  have d: "distinct (map snd (?z @ [entry rt uuid c]) @ map (\<lambda>c. snd (entry rt uuid c)) calls)"
    using Cons.prems(4) by simp
  have p4: "distinct (map snd (zsets ?st1 (events_key uuid)) @ map (\<lambda>c. snd (entry rt uuid c)) calls)"
  proof -
    define A where "A = map snd (zsets ?st1 (events_key uuid))"
    define B where "B = map (\<lambda>c. snd (entry rt uuid c)) calls"
    define L where "L = map snd (?z @ [entry rt uuid c])"
    have dL: "distinct L" and dB: "distinct B" and disj: "set L \<inter> set B = {}"
      using d unfolding L_def B_def by (simp_all only: distinct_append)
    have "A = drop (Suc (length ?z) - 50) L"
      unfolding A_def L_def step by (simp only: drop_map)
    then have "distinct A" and "set A \<subseteq> set L"
      using dL by (simp_all add: set_drop_subset)
    then have "distinct (A @ B)"
      using dB disj by (simp only: distinct_append) blast
    then show ?thesis
      unfolding A_def B_def .
  qed
  have p5: "length (zsets ?st1 (events_key uuid)) \<le> 50"
    unfolding step by simp
  have "zsets (captures rt uuid (c # calls) st) (events_key uuid) =
          zsets (captures rt uuid calls ?st1) (events_key uuid)"
    by (simp add: captures_def)
  also have "\<dots> = drop (length (zsets ?st1 (events_key uuid) @ map (entry rt uuid) calls) - 50)
             (zsets ?st1 (events_key uuid) @ map (entry rt uuid) calls)"
    using Cons.IH [OF p1 p2 p3 p4] p5 by simp
  also have "\<dots> = drop (length ((?z @ [entry rt uuid c]) @ map (entry rt uuid) calls) - 50)
             ((?z @ [entry rt uuid c]) @ map (entry rt uuid) calls)"
    unfolding step using drop_drop_append [of "?z @ [entry rt uuid c]" 50 "map (entry rt uuid) calls"]
    by simp
  finally show ?case by simp
qed

lemma zrange_list_all: "zrange_list z 0 (- 1) False = z" "zrange_list z 0 (- 1) True = rev z"
  by (auto simp: zrange_list_def rank_bounds_def Let_def)

lemma event_json_inject: "event_json e = event_json e' \<Longrightarrow> e = e'"
  by (cases e, cases e') (simp add: event_json_def)

lemma parsed_event_client_value:
  assumes "JSON_parse rt (member_of rt e) = Some (event_json e)"
  shows "parsed_event rt (client_value rt (member_of rt e)) = Some (event_json e)"
  using assms by (simp add: parsed_event_def client_value_def event_json_def)

lemma member_client_value:
  assumes "JSON_parse rt (member_of rt e) = Some (event_json e)"
  shows "(case client_value rt (member_of rt e) of
            JStr s \<Rightarrow> s
          | _ \<Rightarrow> JSON_stringify rt (client_value rt (member_of rt e)))
           = member_of rt e"
proof -
  obtain fs where fs: "event_json e = JObj fs"
    by (simp add: event_json_def)
  have "client_value rt (member_of rt e) =
          (if automaticDeserialization rt then JObj fs else JStr (member_of rt e))"
    using assms by (simp add: client_value_def fs)
  then show ?thesis
    by (simp add: member_of_def fs)
qed

lemma id_is_event_json: "id_is (event_json e) eventId = Some (ev_id e = eventId)"
  by (simp add: id_is_def event_json_def)

lemma find_member_log:
  assumes "\<forall>e \<in> set es. JSON_parse rt (member_of rt e) = Some (event_json e)"
  shows "find_member rt eventId (map (client_value rt) (map (member_of rt) es)) =
           Some (map_option (member_of rt) (find (\<lambda>e. ev_id e = eventId) es))"
  using assms
proof (induction es)
  case Nil
  then show ?case by simp
next
  case (Cons e es)
  then have p: "parsed_event rt (client_value rt (member_of rt e)) = Some (event_json e)"
    by (simp add: parsed_event_client_value)
  show ?case
  proof (cases "ev_id e = eventId")
    case True
    then show ?thesis
      using Cons.prems by (simp add: p id_is_event_json member_client_value)
  next
    case False
    then show ?thesis
      using Cons by (simp add: p id_is_event_json)
  qed
qed

lemma member_of_inject:
  assumes "JSON_parse rt (member_of rt e) = Some (event_json e)"
    and "JSON_parse rt (member_of rt e') = Some (event_json e')"
    and "member_of rt e = member_of rt e'"
  shows "e = e'"
  using assms by (auto dest: event_json_inject)

lemma zrem_log_of:
  assumes rt: "\<forall>se \<in> set ses. JSON_parse rt (member_of rt (snd se)) = Some (event_json (snd se))"
    and ids: "distinct (map (\<lambda>se. ev_id (snd se)) ses)"
    and e0: "(sc0, e0) \<in> set ses"
  shows "zrem_list (log_of rt ses) (member_of rt e0) =
           log_of rt (filter (\<lambda>se. ev_id (snd se) \<noteq> ev_id e0) ses)"
proof -
  have inj: "inj_on (\<lambda>se. ev_id (snd se)) (set ses)"
    using ids by (simp add: distinct_map)
  have "member_of rt (snd se) \<noteq> member_of rt e0 \<longleftrightarrow> ev_id (snd se) \<noteq> ev_id e0"
    if "se \<in> set ses" for se
  proof
    assume "member_of rt (snd se) \<noteq> member_of rt e0"
    then show "ev_id (snd se) \<noteq> ev_id e0"
      using inj_onD [OF inj _ that e0] by auto
  next
    assume "ev_id (snd se) \<noteq> ev_id e0"
    then show "member_of rt (snd se) \<noteq> member_of rt e0"
      using member_of_inject [of rt "snd se" e0] rt that e0 by fastforce
  qed
  then show ?thesis
    by (simp add: zrem_list_def log_of_def filter_map o_def cong: filter_cong)
qed

lemma those_map_Some: "those (map (\<lambda>x. Some (f x)) xs) = Some (map f xs)"
  by (induction xs) simp_all

lemma getWebhookEvents_log_of:
  assumes "\<not> raises Redis_zrange"
    and "zsets st (events_key uuid) = log_of rt ses"
    and "\<forall>se \<in> set ses. JSON_parse rt (member_of rt (snd se)) = Some (event_json (snd se))"
  shows "getWebhookEvents rt raises uuid st = map (\<lambda>se. event_json (snd se)) (rev ses)"
proof -
  have "map (\<lambda>m. parsed_event rt (client_value rt m)) (map snd (rev (log_of rt ses)))
          = map (\<lambda>se. Some (event_json (snd se))) (rev ses)"
    using assms(3) by (simp add: log_of_def rev_map parsed_event_client_value)
  then show ?thesis
    using assms(1,2)
    by (simp add: getWebhookEvents_def redis_zrange_def zrange_list_all Let_def those_map_Some)
qed

section \<open>Facts about the concrete inputs\<close>

lemma member_call_of:
  assumes "c \<noteq> CHR 0x22" and "c \<noteq> CHR 0x5C"
  shows "snd (entry (table_runtime [] True) ''abc'' (call_of c)) ! 7 = c"
  using assms
  by (simp add: entry_def call_of_def table_runtime_def event_json_def webhookEvent_def quote_def)

lemma calls51_members_distinct:
  "distinct (map (\<lambda>c. snd (entry (table_runtime [] True) ''abc'' c)) calls51)"
proof -
  have "inj_on (\<lambda>c. snd (entry (table_runtime [] True) ''abc'' (call_of c))) (set ids51)"
  proof (rule inj_on_inverseI [where g = "\<lambda>s. s ! 7"])
    fix c assume "c \<in> set ids51"
    then have "c \<noteq> CHR 0x22" "c \<noteq> CHR 0x5C"
      by (auto simp: ids51_def)
    then show "snd (entry (table_runtime [] True) ''abc'' (call_of c)) ! 7 = c"
      by (rule member_call_of)
  qed
  moreover have "distinct ids51"
    by (simp add: ids51_def)
  ultimately show ?thesis
    by (simp add: calls51_def distinct_map o_def)
qed

lemma member_call_of_head:
  "snd (entry (table_runtime [] True) ''abc'' (call_of c)) ! 0 = CHR ''{''"
  by (simp add: entry_def call_of_def table_runtime_def event_json_def)

lemma calls51_members_new:
  "''old'' \<notin> set (map (\<lambda>c. snd (entry (table_runtime [] True) ''abc'' c)) calls51)"
proof
  assume "''old'' \<in> set (map (\<lambda>c. snd (entry (table_runtime [] True) ''abc'' c)) calls51)"
  then obtain c where "''old'' = snd (entry (table_runtime [] True) ''abc'' (call_of c))"
    by (auto simp: calls51_def)
  then have "''old'' ! 0 = CHR ''{''"
    using member_call_of_head [of c] by simp
  then show False by simp
qed

lemma calls51_clock: "sorted_wrt (<) (map (\<lambda>c. env_now (fst c)) calls51)"
  by (simp add: calls51_def ids51_def call_of_def)

lemma event1_eq:
  "event1 = \<lparr>ev_id = ''e2'', ev_uuid = ''abc'', ev_method = ''GET'',
     ev_url = ''https://ehook.app/api/webhook/abc'',
     ev_headers = [], ev_body = JNull, ev_query = [],
     ev_timestamp = 1700000000500\<rparr>"
  by (simp add: event1_def webhookEvent_def env1_def request_ping_def object_eval
      parseBody_def string_eval)

lemma runtime2_parses:
  "JSON_parse (runtime2 a) (member_of (runtime2 a) event0) = Some (event_json event0)"
  "JSON_parse (runtime2 a) (member_of (runtime2 a) event1) = Some (event_json event1)"
  by (simp_all add: runtime2_def table_runtime_def member_of_def event0_eq event1_eq
      event_json_def quote_def show_int_def)

lemma env01:
  "env_raises env0 = (\<lambda>_. False)" "env_now env0 = 1700000000000"
  "env_raises env1 = (\<lambda>_. False)" "env_now env1 = 1700000000500"
  by (simp_all add: env0_def env1_def)

lemma members_differ:
  "JSON_stringify (runtime2 a) (event_json event0) \<noteq> JSON_stringify (runtime2 a) (event_json event1)"
proof
  assume eq: "JSON_stringify (runtime2 a) (event_json event0) =
              JSON_stringify (runtime2 a) (event_json event1)"
  have "event0 = event1"
    by (rule member_of_inject [OF runtime2_parses(1) [of a] runtime2_parses(2) [of a]])
       (simp add: member_of_def eq)
  then show False
    by (simp add: event0_eq event1_eq)
qed

lemma store2_log:
  "zsets store2 (events_key ''abc'') =
     log_of (runtime2 True) [(1700000000000, event0), (1700000000500, event1)]"
  by (simp add: store2_def handleWebhook_def Let_def redis_zadd_def redis_zcard_def
      zadd_list_def zless_def env01 store0_def log_of_def member_of_def
      event0_def [symmetric] event1_def [symmetric] members_differ)

section \<open>C1: the capacity of the log\<close>

text \<open>
  C1: after \<open>N \<ge> 51\<close> sequential captures to one endpoint, the stored log has exactly 50
  entries and they are the 50 latest captures, in capture order; the entries of lowest
  timestamp, the oldest, were evicted. Here each capture of the sequence reads a clock
  value strictly above the one before it and above every score already in the log, its
  append, count and trim succeed, and the serialized events are pairwise different (each
  carries its own id and timestamp). The log the sequence starts from is arbitrary.
\<close>

theorem capacity_invariant:
  assumes "\<forall>c \<in> set calls. \<not> env_raises (fst c) Redis_zadd \<and> \<not> env_raises (fst c) Redis_zcard \<and>
             \<not> env_raises (fst c) Redis_zremrangebyrank"
    and "sorted_wrt (<) (map (\<lambda>c. env_now (fst c)) calls)"
    and "\<forall>x \<in> set (zsets st (events_key uuid)). \<forall>c \<in> set calls. fst x < env_now (fst c)"
    and "distinct (map snd (zsets st (events_key uuid)) @ map (\<lambda>c. snd (entry rt uuid c)) calls)"
    and "51 \<le> length calls"
  shows "zsets (captures rt uuid calls st) (events_key uuid) =
           drop (length calls - 50) (map (entry rt uuid) calls) \<and>
         length (zsets (captures rt uuid calls st) (events_key uuid)) = 50"
proof -
  have "zsets (captures rt uuid calls st) (events_key uuid) =
           drop (length (zsets st (events_key uuid) @ map (entry rt uuid) calls) - 50)
             (zsets st (events_key uuid) @ map (entry rt uuid) calls)"
    using assms by (intro captures_log) auto
  also have "\<dots> = drop (length calls - 50) (map (entry rt uuid) calls)"
    using assms(5) by simp
  finally show ?thesis
    using assms(5) by simp
qed

theorem capacity_invariant_witness:
  "zsets (captures (table_runtime [] True) ''abc'' calls51 store_old) (events_key ''abc'') =
     drop 1 (map (entry (table_runtime [] True) ''abc'') calls51) \<and>
   length (zsets (captures (table_runtime [] True) ''abc'' calls51 store_old) (events_key ''abc'')) = 50"
proof -
  have "length calls51 = 51"
    by (simp add: calls51_def ids51_def)
  moreover have "\<forall>c \<in> set calls51. \<not> env_raises (fst c) Redis_zadd \<and>
      \<not> env_raises (fst c) Redis_zcard \<and> \<not> env_raises (fst c) Redis_zremrangebyrank"
    by (auto simp: calls51_def call_of_def)
  moreover have "\<forall>c \<in> set calls51. 1600000000000 < env_now (fst c)"
    by (auto simp: calls51_def call_of_def)
  moreover have "zsets store_old (events_key ''abc'') = [(1600000000000, ''old'')]"
    by (simp add: store_old_def)
  ultimately show ?thesis
    using capacity_invariant [of calls51 store_old "''abc''" "table_runtime [] True"]
      calls51_clock calls51_members_distinct calls51_members_new
    by simp
qed

section \<open>C2: the body by content type\<close>

text \<open>
  C2 as stated: the third case of the body policy applies when the declared type starts
  with \<^verbatim>\<open>text/\<close>, and every other type with an empty payload gives a \<^verbatim>\<open>null\<close> body.
  The handler tests \<^verbatim>\<open>contentType.includes("text/")\<close>. For the declared type
  \<^verbatim>\<open>multipart/related; type="text/xml"\<close>, which does not start with \<^verbatim>\<open>text/\<close>, and an
  empty payload, the specification's policy gives \<^verbatim>\<open>null\<close> and the handler records the
  empty string.
\<close>

theorem text_branch_counterexample:
  "headers_get (req_headers request_related) ''content-type'' = Some content_type_related \<and>
   \<not> str_startsWith content_type_related ''text/'' \<and>
   str_includes content_type_related ''text/'' \<and>
   req_text request_related = Some [] \<and>
   spec_parseBody request_related = JNull \<and>
   parseBody request_related = JStr [] \<and>
   ev_body (webhookEvent env0 ''abc'' request_related) = JStr []"
  by (simp add: spec_parseBody_def parseBody_def webhookEvent_def request_related_def
      content_type_related_def string_eval)

text \<open>
  C2 (amended): the body of the normalized event is selected by the declared content type
  in this order: if it contains \<^verbatim>\<open>application/json\<close>, the parsed JSON value, or
  \<^verbatim>\<open>null\<close> when the read fails; else if it contains
  \<^verbatim>\<open>application/x-www-form-urlencoded\<close>, the object of the form fields, or \<^verbatim>\<open>null\<close>
  when the read fails; else if it contains \<^verbatim>\<open>text/\<close> (anywhere), the raw text, or
  \<^verbatim>\<open>null\<close> when the read fails; otherwise the payload read as text, with an empty
  payload or a failed read giving \<^verbatim>\<open>null\<close>. A failed body read does not reach the
  caller: when no outgoing call before the settings read raises, the event is published
  with that body and the reply is the one computed from the settings.
\<close>

theorem body_by_content_type:
  "(let contentType =
          (case headers_get (req_headers request) ''content-type'' of Some v \<Rightarrow> v | None \<Rightarrow> []);
        is_json = str_includes contentType ''application/json'';
        is_form = str_includes contentType ''application/x-www-form-urlencoded'';
        is_text = str_includes contentType ''text/'';
        body = ev_body (webhookEvent env uuid request)
    in (is_json \<longrightarrow> body = (case req_json request of Some v \<Rightarrow> v | None \<Rightarrow> JNull)) \<and>
       (\<not> is_json \<and> is_form \<longrightarrow>
          body = (case req_formData request of
                    Some formData \<Rightarrow> JObj (fromEntries (map (\<lambda>(k, v). (k, JStr v)) formData))
                  | None \<Rightarrow> JNull)) \<and>
       (\<not> is_json \<and> \<not> is_form \<and> is_text \<longrightarrow>
          body = (case req_text request of Some t \<Rightarrow> JStr t | None \<Rightarrow> JNull)) \<and>
       (\<not> is_json \<and> \<not> is_form \<and> \<not> is_text \<longrightarrow>
          body = (case req_text request of
                    Some t \<Rightarrow> (if t = [] then JNull else JStr t)
                  | None \<Rightarrow> JNull))) \<and>
   (\<not> env_raises env Redis_zadd \<and> \<not> env_raises env Redis_zcard \<and>
    \<not> env_raises env Redis_zremrangebyrank \<and> \<not> env_raises env Realtime_emit \<longrightarrow>
      h_emitted (handleWebhook rt env uuid request st) =
        [(channel_name uuid, webhookEvent env uuid request)] \<and>
      h_reply (handleWebhook rt env uuid request st) =
        respond rt (getWebhookSettings rt (env_raises env) uuid st))"
proof -
  have "ev_body (webhookEvent env uuid request) = parseBody request"
    by (simp add: webhookEvent_def)
  then show ?thesis
    using handleWebhook_reaches_respond [of env rt uuid request st]
    by (auto simp: parseBody_def Let_def split: option.splits)
qed

theorem body_by_content_type_witness:
  "ev_body (webhookEvent env0 ''abc'' request0) = JObj [(''x'', JNum 1)] \<and>
   ev_body (webhookEvent env0 ''abc'' request_bad_json) = JNull \<and>
   h_reply (handleWebhook (table_runtime [] True) env0 ''abc'' request_bad_json store0) =
     Response default_response"
  using body_by_content_type [of request0 env0 "''abc''" "table_runtime [] True" store0]
    body_by_content_type [of request_bad_json env0 "''abc''" "table_runtime [] True" store0]
  by (simp add: request_bad_json_def request0_def env0_def string_eval Let_def
      eval_defs store0_def)

section \<open>C3: the configured response\<close>




section \<open>C4: a failing publish\<close>

text \<open>
  C4 as stated: when the publish of the captured event raises, the failure is swallowed
  and the response of step 5 (configured or default) is still returned. The handler has no
  handler around \<^verbatim>\<open>emit\<close>: the raise reaches the outer \<^verbatim>\<open>catch\<close>. At the input below
  (fresh store, no settings, \<^verbatim>\<open>emit\<close> raises) step 5 would answer the default 200, and the
  handler answers the 500.
\<close>

theorem publish_failure_counterexample:
  "env_raises env_emit_raises Realtime_emit \<and>
   h_reply (handleWebhook (table_runtime [] True) env_emit_raises ''abc'' request0 store0)
     = Response error_response \<and>
   respond (table_runtime [] True)
     (getWebhookSettings (table_runtime [] True) (env_raises env_emit_raises) ''abc''
        (h_store (handleWebhook (table_runtime [] True) env_emit_raises ''abc'' request0 store0)))
     = Response default_response \<and>
   error_response \<noteq> default_response"
  by (simp add: eval_defs env_emit_raises_def env0_def store0_def error_response_def
        default_response_def)

text \<open>
  C4 (amended): when the publish of a captured event raises, the raise reaches the outer
  \<^verbatim>\<open>catch\<close>: the caller receives status 500 with
  \<^verbatim>\<open>{success: false, error: "Internal server error"}\<close> in place of the response of step
  5, and the store is left exactly as the same request leaves it when the publish succeeds
  (the append and the trim are not undone).
\<close>

theorem publish_failure_answers_500:
  assumes "env_raises env Realtime_emit"
  shows "h_reply (handleWebhook rt env uuid request st) = Response error_response \<and>
         h_store (handleWebhook rt env uuid request st) =
           h_store (handleWebhook rt
                      (env\<lparr>env_raises := (env_raises env)(Realtime_emit := False)\<rparr>)
                      uuid request st)"
proof -
  have "h_reply (handleWebhook rt env uuid request st) = Response error_response"
    using assms by (simp add: handleWebhook_def Let_def caught_def)
  moreover have "h_store (handleWebhook rt env uuid request st) =
           h_store (handleWebhook rt
                      (env\<lparr>env_raises := (env_raises env)(Realtime_emit := False)\<rparr>)
                      uuid request st)"
    using assms by (simp add: handleWebhook_def Let_def caught_def webhookEvent_raises_update)
  ultimately show ?thesis by simp
qed

theorem publish_failure_answers_500_witness:
  "h_reply (handleWebhook (table_runtime [] True) env_emit_raises ''abc'' request0 store0)
     = Response error_response"
  using publish_failure_answers_500
    [of env_emit_raises "table_runtime [] True" "''abc''" request0 store0]
  by (simp add: env_emit_raises_def)

section \<open>C5: no settings, or a failed settings read\<close>

text \<open>
  C5: when the endpoint has no settings record, or the settings read raises, a capture
  whose store writes and publish succeed is answered with status 200 and
  \<^verbatim>\<open>{success: true, message: "Webhook received"}\<close>.
\<close>

theorem missing_settings_default_response:
  assumes "\<not> env_raises env Redis_zadd" "\<not> env_raises env Redis_zcard"
    "\<not> env_raises env Redis_zremrangebyrank" "\<not> env_raises env Realtime_emit"
    and "strings st (settings_key uuid) = None \<or> env_raises env Redis_get"
  shows "h_reply (handleWebhook rt env uuid request st) = Response default_response"
proof -
  have "getWebhookSettings rt (env_raises env) uuid st = JNull"
    using assms(5) by (auto simp: getWebhookSettings_def redis_get_def)
  then show ?thesis
    using handleWebhook_reaches_respond(1) [OF assms(1-4)]
    by (simp add: respond_def truthy_def)
qed

theorem missing_settings_default_response_witness:
  "h_reply (handleWebhook (table_runtime [] True) env0 ''abc'' request0 store0)
     = Response default_response \<and>
   h_reply (handleWebhook (table_runtime [] True) env_get_raises ''abc'' request0 store_corrupted)
     = Response default_response"
  using missing_settings_default_response
      [of env0 store0 "''abc''" "table_runtime [] True" request0]
    missing_settings_default_response
      [of env_get_raises store_corrupted "''abc''" "table_runtime [] True" request0]
  by (simp add: env0_def env_get_raises_def store0_def)

section \<open>C6: settings round trip\<close>

text \<open>
  C6: \<^verbatim>\<open>saveWebhookSettings(uuid, s)\<close> followed by \<^verbatim>\<open>getWebhookSettings(uuid)\<close> returns
  \<open>s\<close>, and \<^verbatim>\<open>getWebhookSettings\<close> for an endpoint whose settings key was never written
  returns \<^verbatim>\<open>null\<close>. The calls to Redis succeed, and the runtime's \<^verbatim>\<open>JSON.parse\<close> inverts
  \<^verbatim>\<open>JSON.stringify\<close> on \<open>s\<close> and rejects the empty string.
\<close>

theorem save_then_get_settings:
  assumes "\<not> raises Redis_set" and "\<not> raises' Redis_get"
    and "JSON_parse rt (JSON_stringify rt (settings_json s)) = Some (settings_json s)"
    and "JSON_parse rt [] = None"
  shows "snd (saveWebhookSettings rt raises uuid s st) \<and>
         getWebhookSettings rt raises' uuid (fst (saveWebhookSettings rt raises uuid s st))
           = settings_json s \<and>
         as_settings (settings_json s) = Some s \<and>
         (strings st (settings_key uuid) = None \<longrightarrow> getWebhookSettings rt raises' uuid st = JNull)"
proof -
  let ?st' = "fst (saveWebhookSettings rt raises uuid s st)"
  have "strings ?st' (settings_key uuid) = Some (JSON_stringify rt (settings_json s))"
    using assms(1) by (simp add: saveWebhookSettings_def redis_set_def Let_def)
  then have "getWebhookSettings rt raises' uuid ?st' = settings_json s"
    using assms(2,3,4) by (simp add: getWebhookSettings_stored)
  moreover have "snd (saveWebhookSettings rt raises uuid s st)"
    using assms(1) by (simp add: saveWebhookSettings_def Let_def)
  moreover have "strings st (settings_key uuid) = None \<longrightarrow> getWebhookSettings rt raises' uuid st = JNull"
    by (simp add: getWebhookSettings_def redis_get_def)
  ultimately show ?thesis by (simp add: as_settings_settings_json)
qed

theorem save_then_get_settings_witness:
  "getWebhookSettings (runtime1 False) (\<lambda>_. False) ''abc''
     (fst (saveWebhookSettings (runtime1 False) (\<lambda>_. False) ''abc'' settings0 store0))
     = settings_json settings0 \<and>
   getWebhookSettings (runtime1 False) (\<lambda>_. False) ''abc'' store0 = JNull"
  using save_then_get_settings [of "\<lambda>_. False" "\<lambda>_. False" "runtime1 False" settings0 "''abc''" store0]
  by (simp add: runtime1_facts store0_def)

section \<open>C7: deleting one event\<close>

text \<open>
  C7: on a log that holds the events \<open>ses\<close> with pairwise distinct ids, each stored as a
  member that the runtime parses back, \<^verbatim>\<open>deleteWebhookEvent(uuid, eventId)\<close> returns
  \<^verbatim>\<open>true\<close> exactly when an event with that id is stored; afterwards the log holds the
  other entries, unchanged and in order, and no entry with that id (for an id that is not
  stored: the same log, and the result \<^verbatim>\<open>false\<close>); a following history fetch returns
  the remaining events, latest first, none of them with that id. The Redis calls succeed.
\<close>

theorem delete_one_event:
  assumes "\<not> raises Redis_zrange" and "\<not> raises Redis_zrem" and "\<not> raises' Redis_zrange"
    and "zsets st (events_key uuid) = log_of rt ses"
    and "\<forall>se \<in> set ses. JSON_parse rt (member_of rt (snd se)) = Some (event_json (snd se))"
    and "distinct (map (\<lambda>se. ev_id (snd se)) ses)"
  shows "snd (deleteWebhookEvent rt raises uuid eventId st) =
           (eventId \<in> (\<lambda>se. ev_id (snd se)) ` set ses) \<and>
         zsets (fst (deleteWebhookEvent rt raises uuid eventId st)) (events_key uuid) =
           log_of rt (filter (\<lambda>se. ev_id (snd se) \<noteq> eventId) ses) \<and>
         getWebhookEvents rt raises' uuid (fst (deleteWebhookEvent rt raises uuid eventId st)) =
           map (\<lambda>se. event_json (snd se)) (rev (filter (\<lambda>se. ev_id (snd se) \<noteq> eventId) ses)) \<and>
         (\<forall>v \<in> set (getWebhookEvents rt raises' uuid
                      (fst (deleteWebhookEvent rt raises uuid eventId st))).
            id_is v eventId = Some False)"
proof -
  let ?es = "map snd ses"
  let ?keep = "filter (\<lambda>se. ev_id (snd se) \<noteq> eventId) ses"
  have rt: "\<forall>e \<in> set ?es. JSON_parse rt (member_of rt e) = Some (event_json e)"
    using assms(5) by auto
  have members: "redis_zrange st (events_key uuid) 0 (- 1) False = map (member_of rt) ?es"
    by (simp add: redis_zrange_def zrange_list_all assms(4) log_of_def o_def)
  have fm: "find_member rt eventId
              (map (client_value rt) (redis_zrange st (events_key uuid) 0 (- 1) False)) =
              Some (map_option (member_of rt) (find (\<lambda>e. ev_id e = eventId) ?es))"
    unfolding members using rt by (rule find_member_log)
  have del: "snd (deleteWebhookEvent rt raises uuid eventId st) =
               (eventId \<in> (\<lambda>se. ev_id (snd se)) ` set ses) \<and>
             zsets (fst (deleteWebhookEvent rt raises uuid eventId st)) (events_key uuid) =
               log_of rt ?keep"
  proof (cases "find (\<lambda>e. ev_id e = eventId) ?es")
    case None
    then have no: "\<forall>se \<in> set ses. ev_id (snd se) \<noteq> eventId"
      by (auto simp: find_None_iff)
    then have "?keep = ses" by (simp add: filter_id_conv)
    moreover have "deleteWebhookEvent rt raises uuid eventId st = (st, False)"
      using assms(1) by (simp add: deleteWebhookEvent_def Let_def fm None)
    ultimately show ?thesis using no assms(4) by auto
  next
    case (Some e0)
    then have e0: "e0 \<in> set ?es" "ev_id e0 = eventId"
      by (auto simp: find_Some_iff)
    then obtain sc0 where sc0: "(sc0, e0) \<in> set ses" by auto
    have "deleteWebhookEvent rt raises uuid eventId st =
            (redis_zrem st (events_key uuid) (member_of rt e0), True)"
      using assms(1,2) by (simp add: deleteWebhookEvent_def Let_def fm Some)
    moreover have "zrem_list (log_of rt ses) (member_of rt e0) = log_of rt ?keep"
      using zrem_log_of [OF assms(5,6) sc0] e0(2) by simp
    ultimately show ?thesis
      using sc0 e0(2) assms(4) by (force simp: redis_zrem_def)
  qed
  have keep_rt: "\<forall>se \<in> set ?keep. JSON_parse rt (member_of rt (snd se)) = Some (event_json (snd se))"
    using assms(5) by auto
  have fetch: "getWebhookEvents rt raises' uuid (fst (deleteWebhookEvent rt raises uuid eventId st)) =
           map (\<lambda>se. event_json (snd se)) (rev ?keep)"
    using getWebhookEvents_log_of
      [of raises' "fst (deleteWebhookEvent rt raises uuid eventId st)" uuid rt ?keep]
      assms(3) keep_rt del
    by simp
  have "\<forall>v \<in> set (map (\<lambda>se. event_json (snd se)) (rev ?keep)). id_is v eventId = Some False"
    by (auto simp: id_is_event_json)
  with del fetch show ?thesis by simp
qed

theorem delete_one_event_witness:
  "snd (deleteWebhookEvent (runtime2 True) (\<lambda>_. False) ''abc'' ''e1'' store2) \<and>
   getWebhookEvents (runtime2 True) (\<lambda>_. False) ''abc''
     (fst (deleteWebhookEvent (runtime2 True) (\<lambda>_. False) ''abc'' ''e1'' store2))
     = [event_json event1] \<and>
   \<not> snd (deleteWebhookEvent (runtime2 True) (\<lambda>_. False) ''abc'' ''e9'' store2) \<and>
   zsets (fst (deleteWebhookEvent (runtime2 True) (\<lambda>_. False) ''abc'' ''e9'' store2))
     (events_key ''abc'') = zsets store2 (events_key ''abc'')"
  using delete_one_event [of "\<lambda>_. False" "\<lambda>_. False" store2 "''abc''" "runtime2 True"
          "[(1700000000000, event0), (1700000000500, event1)]" "''e1''"]
    delete_one_event [of "\<lambda>_. False" "\<lambda>_. False" store2 "''abc''" "runtime2 True"
          "[(1700000000000, event0), (1700000000500, event1)]" "''e9''"]
  by (simp add: store2_log runtime2_parses) (simp add: event0_eq event1_eq)

section \<open>C8: the merged log of the viewer\<close>

text \<open>
  C8 as stated: after one bootstrap load followed by live pushes, where a pushed event
  may also be in the bootstrap result, the displayed log never holds two entries with the
  same event id. \<^verbatim>\<open>onData\<close> prepends without looking at the log: with the same event in
  the bootstrap result and in one push, the log holds it twice.
\<close>

theorem pushes_duplicate_counterexample:
  "events (bootstrap_then_pushes ''abc'' [event0] [event0] \<lparr>events = [], searchQuery = []\<rparr>)
     = [event0, event0] \<and>
   \<not> distinct (map ev_id
        (events (bootstrap_then_pushes ''abc'' [event0] [event0] \<lparr>events = [], searchQuery = []\<rparr>)))"
  by (simp add: bootstrap_then_pushes_def loadEvents_def onData_def event0_eq)

text \<open>
  C8 (amended): after one bootstrap load followed by live pushes, the displayed log is the
  pushes addressed to the selected endpoint, latest first, followed by the bootstrap
  result; nothing is removed. It is free of repeated event ids exactly when those pushes
  have pairwise distinct ids, the bootstrap result has pairwise distinct ids, and no
  pushed id occurs in the bootstrap result.
\<close>

theorem merged_log_is_concatenation:
  "events (bootstrap_then_pushes uuid initialEvents pushes st) =
     rev (filter (\<lambda>d. ev_uuid d = uuid) pushes) @ initialEvents \<and>
   (distinct (map ev_id (events (bootstrap_then_pushes uuid initialEvents pushes st))) \<longleftrightarrow>
      distinct (map ev_id (filter (\<lambda>d. ev_uuid d = uuid) pushes)) \<and>
      distinct (map ev_id initialEvents) \<and>
      ev_id ` {d \<in> set pushes. ev_uuid d = uuid} \<inter> ev_id ` set initialEvents = {})"
proof -
  have e: "events (bootstrap_then_pushes uuid initialEvents pushes st) =
     rev (filter (\<lambda>d. ev_uuid d = uuid) pushes) @ initialEvents"
    by (simp add: bootstrap_then_pushes_def events_foldl_onData loadEvents_def)
  show ?thesis
    unfolding e by (auto simp: rev_map [symmetric])
qed

section \<open>C9: the search filter\<close>

text \<open>
  C9 as stated: for a non-empty search text the filter keeps exactly the events in which
  the text occurs, ignoring case, in the method, the url, the serialized headers, the
  serialized query or the serialized or raw body. The source also searches the event id:
  for the text \<^verbatim>\<open>E1\<close> and an event whose id is \<^verbatim>\<open>e1\<close> and that holds \<^verbatim>\<open>e1\<close>
  nowhere else, the specification's filter keeps nothing and the source keeps the event.
\<close>

theorem id_match_counterexample:
  "''E1'' \<noteq> [] \<and>
   spec_search (table_runtime [] True) ''E1'' [event0] = [] \<and>
   filteredEvents (table_runtime [] True) \<lparr>events = [event0], searchQuery = ''E1''\<rparr> = [event0]"
  by (simp add: spec_search_def spec_matches_def filteredEvents_def matches_def event0_eq
      table_runtime_def trim_def is_white_space_def quote_def show_int_def string_eval Let_def truthy_def)

text \<open>
  C9 (amended): when the search text is blank after trimming, the filter returns the whole
  list. Otherwise it keeps, in order, exactly the events in which the lower-cased text
  occurs in the lower-cased method, url, serialized headers, serialized query, event id,
  or, when the body is truthy, in the lower-cased raw body (a string body) or serialized
  body (any other body). The result is a subsequence of the event list, which the filter
  only reads.
\<close>

theorem search_filter:
  "filteredEvents rt st =
     (if trim (searchQuery st) = [] then events st
      else filter
             (\<lambda>event.
                str_includes (toLowerCase (ev_method event)) (toLowerCase (searchQuery st)) \<or>
                str_includes (toLowerCase (ev_url event)) (toLowerCase (searchQuery st)) \<or>
                str_includes (toLowerCase (JSON_stringify rt (JObj (ev_headers event))))
                  (toLowerCase (searchQuery st)) \<or>
                str_includes (toLowerCase (JSON_stringify rt (JObj (ev_query event))))
                  (toLowerCase (searchQuery st)) \<or>
                (truthy (ev_body event) \<and>
                 str_includes
                   (toLowerCase (case ev_body event of JStr s \<Rightarrow> s | b \<Rightarrow> JSON_stringify rt b))
                   (toLowerCase (searchQuery st))) \<or>
                str_includes (toLowerCase (ev_id event)) (toLowerCase (searchQuery st)))
             (events st)) \<and>
   subseq (filteredEvents rt st) (events st)"
proof -
  have m: "matches rt q =
     (\<lambda>event.
      str_includes (toLowerCase (ev_method event)) q \<or>
      str_includes (toLowerCase (ev_url event)) q \<or>
      str_includes (toLowerCase (JSON_stringify rt (JObj (ev_headers event)))) q \<or>
      str_includes (toLowerCase (JSON_stringify rt (JObj (ev_query event)))) q \<or>
      (truthy (ev_body event) \<and>
       str_includes
         (toLowerCase (case ev_body event of JStr s \<Rightarrow> s | b \<Rightarrow> JSON_stringify rt b)) q) \<or>
      str_includes (toLowerCase (ev_id event)) q)" for q
  proof (rule ext)
    fix event
    show "matches rt q event =
      (str_includes (toLowerCase (ev_method event)) q \<or>
       str_includes (toLowerCase (ev_url event)) q \<or>
       str_includes (toLowerCase (JSON_stringify rt (JObj (ev_headers event)))) q \<or>
       str_includes (toLowerCase (JSON_stringify rt (JObj (ev_query event)))) q \<or>
       (truthy (ev_body event) \<and>
        str_includes
          (toLowerCase (case ev_body event of JStr s \<Rightarrow> s | b \<Rightarrow> JSON_stringify rt b)) q) \<or>
       str_includes (toLowerCase (ev_id event)) q)"
      by (cases "ev_body event") (auto simp: matches_def)
  qed
  have "subseq (filteredEvents rt st) (events st)"
    by (simp add: filteredEvents_def Let_def)
  moreover have "filteredEvents rt st =
     (if trim (searchQuery st) = [] then events st
      else filter (matches rt (toLowerCase (searchQuery st))) (events st))"
    by (simp add: filteredEvents_def Let_def)
  ultimately show ?thesis
    unfolding m by simp
qed

section \<open>C10: a stored settings string that is not JSON\<close>

text \<open>
  C10: when the value stored under the endpoint's settings key is a string that
  \<^verbatim>\<open>JSON.parse\<close> rejects, \<^verbatim>\<open>getWebhookSettings\<close> returns \<^verbatim>\<open>null\<close> (it does not raise),
  and a capture whose store writes and publish succeed is answered with the default 200
  acknowledgement.
\<close>

theorem corrupted_settings_as_missing:
  assumes "strings st (settings_key uuid) = Some raw" and "JSON_parse rt raw = None"
  shows "getWebhookSettings rt raises uuid st = JNull \<and>
         (\<not> env_raises env Redis_zadd \<and> \<not> env_raises env Redis_zcard \<and>
          \<not> env_raises env Redis_zremrangebyrank \<and> \<not> env_raises env Realtime_emit \<longrightarrow>
          h_reply (handleWebhook rt env uuid request st) = Response default_response)"
proof -
  have g: "getWebhookSettings rt r uuid st = JNull" for r
    using assms
    by (simp add: getWebhookSettings_def redis_get_def client_value_unparsable truthy_def Let_def)
  show ?thesis
    using g handleWebhook_reaches_respond(1) [of env rt uuid request st]
    by (simp add: respond_def truthy_def)
qed

theorem corrupted_settings_as_missing_witness:
  "getWebhookSettings (table_runtime [] True) (\<lambda>_. False) ''abc'' store_corrupted = JNull \<and>
   h_reply (handleWebhook (table_runtime [] True) env0 ''abc'' request0 store_corrupted)
     = Response default_response"
  using corrupted_settings_as_missing
    [of store_corrupted "''abc''" "''{oops''" "table_runtime [] True" "\<lambda>_. False" env0 request0]
  by (simp add: store_corrupted_def redis_set_def store0_def table_runtime_def env0_def)

end
